theory Spec2Isabelle
  imports Main "HOL-Library.Word"
begin

section \<open>Values of the runtime\<close>

text \<open>
  The module \<^verbatim>\<open>app/services/auth.server.ts\<close> is glue code over Node's \<^verbatim>\<open>crypto\<close>,
  zod, Prisma and the Resend mailer. What the module itself decides (the order of the
  calls, the branches, the thrown errors) is embedded below; the collaborators are
  either written out after their documented behaviour (\<^verbatim>\<open>String.split\<close>, hex
  buffers, \<^verbatim>\<open>timingSafeEqual\<close>, the unique e-mail column, the interactive transaction)
  or taken as parameters (\<^verbatim>\<open>scrypt\<close>, \<^verbatim>\<open>randomBytes\<close>, the generated row id and
  code, the clock, the mailer).
\<close>

type_synonym byte = "8 word"

text \<open>A JavaScript exception: the name of its constructor and its message.\<close>

datatype js_error = JsError (err_name: string) (err_message: string)

text \<open>
  The state of a promise. An exception thrown from inside a Node callback (here the
  callback given to \<^verbatim>\<open>scrypt\<close>) is not caught by the promise executor: the promise
  keeps the state it had, and the exception is uncaught. The second component of an
  outcome records such an exception.
\<close>

datatype 'a settle = Pending | Fulfilled 'a | Rejected js_error

type_synonym 'a outcome = "'a settle \<times> js_error option"

text \<open>
  \<^verbatim>\<open>scrypt(password, salt, keylen, callback)\<close>: the callback receives either an error
  or the derived key. The key-derivation function is a parameter of the model.
\<close>

type_synonym kdf = "string \<Rightarrow> string \<Rightarrow> nat \<Rightarrow> js_error + byte list"

section \<open>Hex buffers and splitting\<close>

text \<open>\<^verbatim>\<open>buf.toString("hex")\<close>: two lower-case digits per byte.\<close>

definition hex_digit :: "nat \<Rightarrow> char" where
  "hex_digit n = ''0123456789abcdef'' ! n"

definition to_hex :: "byte list \<Rightarrow> string" where
  "to_hex bs = concat (map (\<lambda>b. [hex_digit (unat b div 16), hex_digit (unat b mod 16)]) bs)"

text \<open>
  \<^verbatim>\<open>Buffer.from(s, "hex")\<close>: pairs of hex digits (either case) are decoded from the
  left; decoding stops at the first pair that is not two hex digits, and a trailing
  single character is dropped.
\<close>

definition hex_val :: "char \<Rightarrow> nat option" where
  "hex_val c =
     (if c \<in> set ''0123456789'' then Some (of_char c - 48)
      else if c \<in> set ''abcdef'' then Some (of_char c - 87)
      else if c \<in> set ''ABCDEF'' then Some (of_char c - 55)
      else None)"

fun from_hex :: "string \<Rightarrow> byte list" where
  "from_hex (c1 # c2 # cs) =
     (case hex_val c1 of
        None \<Rightarrow> []
      | Some h \<Rightarrow>
          (case hex_val c2 of
             None \<Rightarrow> []
           | Some l \<Rightarrow> of_nat (16 * h + l) # from_hex cs))"
| "from_hex _ = []"

text \<open>
  \<^verbatim>\<open>s.split(sep)\<close> for a one-character separator: the pieces between the
  separators, in order; a string without the separator is the only piece.
\<close>

fun split :: "char \<Rightarrow> string \<Rightarrow> string list" where
  "split sep [] = [[]]"
| "split sep (c # cs) =
     (if c = sep then [] # split sep cs
      else (case split sep cs of
              w # ws \<Rightarrow> (c # w) # ws
            | [] \<Rightarrow> [[c]]))"

text \<open>
  \<^verbatim>\<open>timingSafeEqual(a, b)\<close> throws a RangeError when the byte lengths differ, and
  otherwise tells whether the buffers are equal.
\<close>

definition timingSafeEqual :: "byte list \<Rightarrow> byte list \<Rightarrow> js_error + bool" where
  "timingSafeEqual a b =
     (if length a \<noteq> length b
      then Inl (JsError ''RangeError'' ''Input buffers must have the same byte length'')
      else Inr (a = b))"

section \<open>The credential hasher\<close>

definition keyLength :: nat where
  "keyLength = 32"

text \<open>
  \<^verbatim>\<open>hash\<close>. The argument \<open>rnd\<close> is the result of \<^verbatim>\<open>randomBytes(16)\<close>. When
  \<^verbatim>\<open>scrypt\<close> reports an error the promise is rejected with it, and the callback goes
  on to read \<^verbatim>\<open>derivedKey.toString\<close> of an undefined key, which throws.
\<close>

definition hash :: "kdf \<Rightarrow> byte list \<Rightarrow> string \<Rightarrow> string outcome" where
  "hash scrypt rnd password =
     (let salt = to_hex rnd in
      case scrypt password salt keyLength of
        Inl err \<Rightarrow>
          (Rejected err,
           Some (JsError ''TypeError'' ''Cannot read properties of undefined''))
      | Inr derivedKey \<Rightarrow> (Fulfilled (salt @ ''.'' @ to_hex derivedKey), None))"

text \<open>
  \<^verbatim>\<open>compare\<close>. \<^verbatim>\<open>const [salt, hashKey] = hash.split(".")\<close> takes the first two
  pieces; with a single piece \<^verbatim>\<open>hashKey\<close> is undefined and \<^verbatim>\<open>Buffer.from\<close> throws
  inside the promise executor, which rejects the promise. \<^verbatim>\<open>timingSafeEqual\<close> runs
  inside the \<^verbatim>\<open>scrypt\<close> callback: what it throws is uncaught and the promise stays
  pending.
\<close>

definition compare :: "kdf \<Rightarrow> string \<Rightarrow> string \<Rightarrow> bool outcome" where
  "compare scrypt password hash' =
     (case split CHR ''.'' hash' of
        salt # hashKey # _ \<Rightarrow>
          (let hashKeyBuff = from_hex hashKey in
           case scrypt password salt keyLength of
             Inl err \<Rightarrow>
               (Rejected err,
                Some (JsError ''TypeError'' ''The buf2 argument must be an instance of Buffer''))
           | Inr derivedKey \<Rightarrow>
               (case timingSafeEqual hashKeyBuff derivedKey of
                  Inl e \<Rightarrow> (Pending, Some e)
                | Inr b \<Rightarrow> (Fulfilled b, None)))
      | _ \<Rightarrow>
          (Rejected (JsError ''TypeError'' ''The first argument must be of type string''), None))"

section \<open>The payload schema\<close>

text \<open>
  The \<^verbatim>\<open>context\<close> handed to the form strategy is an arbitrary JavaScript value. An
  object is the list of its own properties, in the order they were written; a
  property that is absent reads as \<^verbatim>\<open>undefined\<close>, and when a list names a key
  more than once the last binding is the property's value, as in an object literal
  and in \<^verbatim>\<open>JSON.parse\<close>.
\<close>

datatype json =
    JUndefined
  | JNull
  | JBool bool
  | JNumber int
  | JString string
  | JObject "(string \<times> json) list"

datatype payload_type = Login | Signup

record payload =
  p_email :: string
  p_password :: string
  p_fullName :: "string option"
  p_tocAccepted :: "bool option"
  p_type :: payload_type

definition field :: "(string \<times> json) list \<Rightarrow> string \<Rightarrow> json" where
  "field obj k = (case map_of (rev obj) k of None \<Rightarrow> JUndefined | Some v \<Rightarrow> v)"

text \<open>\<^verbatim>\<open>z.string()\<close>: any string, the empty one included.\<close>

fun z_string :: "json \<Rightarrow> string option" where
  "z_string (JString s) = Some s"
| "z_string _ = None"

text \<open>\<^verbatim>\<open>z.string().optional()\<close>\<close>

fun z_string_optional :: "json \<Rightarrow> string option option" where
  "z_string_optional JUndefined = Some None"
| "z_string_optional (JString s) = Some (Some s)"
| "z_string_optional _ = None"

text \<open>\<^verbatim>\<open>z.literal(true).optional()\<close>\<close>

fun z_literal_true_optional :: "json \<Rightarrow> bool option option" where
  "z_literal_true_optional JUndefined = Some None"
| "z_literal_true_optional (JBool b) = (if b then Some (Some True) else None)"
| "z_literal_true_optional _ = None"

text \<open>\<^verbatim>\<open>z.enum(["login", "signup"])\<close>\<close>

fun z_enum_type :: "json \<Rightarrow> payload_type option" where
  "z_enum_type (JString s) =
     (if s = ''login'' then Some Login else if s = ''signup'' then Some Signup else None)"
| "z_enum_type _ = None"

text \<open>
  \<^verbatim>\<open>payloadSchema.safeParse\<close>: \<open>None\<close> stands for \<^verbatim>\<open>success: false\<close>. Properties the
  schema does not name are dropped.
\<close>

fun safeParse :: "json \<Rightarrow> payload option" where
  "safeParse (JObject obj) =
     (case z_string (field obj ''email'') of
        None \<Rightarrow> None
      | Some email \<Rightarrow>
     (case z_string (field obj ''password'') of
        None \<Rightarrow> None
      | Some password \<Rightarrow>
     (case z_string_optional (field obj ''fullName'') of
        None \<Rightarrow> None
      | Some fullName \<Rightarrow>
     (case z_literal_true_optional (field obj ''tocAccepted'') of
        None \<Rightarrow> None
      | Some tocAccepted \<Rightarrow>
     (case z_enum_type (field obj ''type'') of
        None \<Rightarrow> None
      | Some type' \<Rightarrow>
          Some \<lparr>p_email = email, p_password = password, p_fullName = fullName,
                p_tocAccepted = tocAccepted, p_type = type'\<rparr>)))))"
| "safeParse _ = None"

section \<open>The account store\<close>

record user =
  u_id :: nat
  u_email :: string
  u_password :: "string option"
  u_fullName :: string
  u_emailVerified :: bool
  u_isGoogleSignUp :: bool

record verificationCode =
  vc_code :: string
  vc_userId :: nat
  vc_expires :: int

record db =
  users :: "user list"
  verificationCodes :: "verificationCode list"

definition unique_violation :: js_error where
  "unique_violation =
     JsError ''PrismaClientKnownRequestError'' ''Unique constraint failed on the fields: (email)''"

text \<open>\<^verbatim>\<open>prisma.user.findFirst({ where: { email } })\<close>\<close>

definition user_findFirst :: "string \<Rightarrow> db \<Rightarrow> user option" where
  "user_findFirst email d = find (\<lambda>u. u_email u = email) (users d)"

text \<open>
  Modelled from the spec: the Prisma schema of the \<^verbatim>\<open>User\<close> table is not among the
  sources. The spec's data model gives the columns: an e-mail that is unique (the
  upsert of the Google strategy, keyed on the e-mail alone, needs a unique column as
  well), a password hash that may be absent, a display name, and the two flags, which
  are false for an account made by signup. \<^verbatim>\<open>prisma.user.create\<close> therefore fails
  with the store's own error when the e-mail is taken, and otherwise appends the row;
  the row id \<open>nid\<close> is the one the store generates. Columns the caller leaves out
  (\<open>None\<close>) take their defaults.
\<close>

definition user_create ::
  "nat \<Rightarrow> string \<Rightarrow> string option \<Rightarrow> string \<Rightarrow> bool option \<Rightarrow> bool option \<Rightarrow> db
    \<Rightarrow> js_error + user \<times> db" where
  "user_create nid email password fullName emailVerified isGoogleSignUp d =
     (if email \<in> set (map u_email (users d)) then Inl unique_violation
      else
        (let u = \<lparr>u_id = nid, u_email = email, u_password = password,
                  u_fullName = fullName,
                  u_emailVerified = (case emailVerified of None \<Rightarrow> False | Some b \<Rightarrow> b),
                  u_isGoogleSignUp = (case isGoogleSignUp of None \<Rightarrow> False | Some b \<Rightarrow> b)\<rparr>
         in Inr (u, d\<lparr>users := users d @ [u]\<rparr>)))"

text \<open>
  \<^verbatim>\<open>prisma.user.upsert({ where: { email }, create: {...}, update: {} })\<close>: the row
  with that e-mail, after an empty update, or else the created row.
\<close>

definition user_upsert ::
  "nat \<Rightarrow> string \<Rightarrow> string \<Rightarrow> db \<Rightarrow> js_error + user \<times> db" where
  "user_upsert nid email fullName d =
     (case find (\<lambda>u. u_email u = email) (users d) of
        Some u \<Rightarrow> Inr (u, d)
      | None \<Rightarrow> user_create nid email None fullName (Some True) (Some True) d)"

text \<open>\<^verbatim>\<open>trx.verificationCode.deleteMany({ where: { userId } })\<close>\<close>

definition verificationCode_deleteMany :: "nat \<Rightarrow> db \<Rightarrow> db" where
  "verificationCode_deleteMany userId d =
     d\<lparr>verificationCodes := filter (\<lambda>r. vc_userId r \<noteq> userId) (verificationCodes d)\<rparr>"

text \<open>\<^verbatim>\<open>trx.verificationCode.create({ data })\<close>\<close>

definition verificationCode_create :: "verificationCode \<Rightarrow> db \<Rightarrow> db" where
  "verificationCode_create row d = d\<lparr>verificationCodes := verificationCodes d @ [row]\<rparr>"

text \<open>
  \<^verbatim>\<open>prisma.$transaction(async (trx) => ...)\<close>: when the callback throws, the writes
  made through \<^verbatim>\<open>trx\<close> are rolled back and the error is thrown on.
\<close>

definition transaction :: "(db \<Rightarrow> (js_error + 'a) \<times> db) \<Rightarrow> db \<Rightarrow> (js_error + 'a) \<times> db" where
  "transaction body d =
     (case body d of
        (Inl e, _) \<Rightarrow> (Inl e, d)
      | (Inr v, d') \<Rightarrow> (Inr v, d'))"

section \<open>Verification codes\<close>

text \<open>
  What \<^verbatim>\<open>await resend.emails.send(...)\<close> can do: resolve after delivery, resolve with
  an error object in its result (which the caller does not read), or reject.
\<close>

datatype send_result = Sent | SendError | SendRejected js_error

type_synonym mailer = "string \<Rightarrow> string \<Rightarrow> send_result"

text \<open>
  \<^verbatim>\<open>sendVerificationCode\<close>. \<open>code\<close> is the result of
  \<^verbatim>\<open>generateRandomString(8, "0123456789")\<close>, \<open>now\<close> that of \<^verbatim>\<open>Date.now()\<close>; the
  mailer is called with the recipient and the code.
\<close>

definition sendVerificationCode ::
  "string \<Rightarrow> int \<Rightarrow> mailer \<Rightarrow> user \<Rightarrow> db \<Rightarrow> unit outcome \<times> db" where
  "sendVerificationCode code now send user' d =
     (case transaction
        (\<lambda>trx.
           let trx1 = verificationCode_deleteMany (u_id user') trx;
               trx2 = verificationCode_create
                        \<lparr>vc_code = code, vc_userId = u_id user',
                         vc_expires = now + 1000 * 60 * 20\<rparr> trx1
           in case send (u_email user') code of
                SendRejected e \<Rightarrow> (Inl e, trx2)
              | _ \<Rightarrow> (Inr (), trx2)) d of
        (Inl e, d') \<Rightarrow> ((Rejected e, None), d')
      | (Inr _, d') \<Rightarrow> ((Fulfilled (), None), d'))"

section \<open>The form strategy\<close>

text \<open>
  The result of one run of the strategy: what its promise does, the store it leaves,
  and the accounts for which \<^verbatim>\<open>sendVerificationCode\<close> was started without being
  awaited.
\<close>

record form_result =
  fr_outcome :: "user outcome"
  fr_store :: db
  fr_detached :: "user list"

definition formStrategy :: "kdf \<Rightarrow> byte list \<Rightarrow> nat \<Rightarrow> json \<Rightarrow> db \<Rightarrow> form_result" where
  "formStrategy scrypt rnd nid context' d =
     (case safeParse context' of
        None \<Rightarrow>
          \<lparr>fr_outcome = (Rejected (JsError ''Error'' ''Parsing Failed''), None),
           fr_store = d, fr_detached = []\<rparr>
      | Some parsedData \<Rightarrow>
          (case p_type parsedData of
             Login \<Rightarrow>
               (case user_findFirst (p_email parsedData) d of
                  None \<Rightarrow>
                    \<lparr>fr_outcome = (Rejected (JsError ''Error'' ''Login failed''), None),
                     fr_store = d, fr_detached = []\<rparr>
                | Some user' \<Rightarrow>
                    (case compare scrypt (p_password parsedData)
                            (case u_password user' of None \<Rightarrow> [] | Some h \<Rightarrow> h) of
                       (Fulfilled isPasswordCorrect, unc) \<Rightarrow>
                         (if isPasswordCorrect
                          then \<lparr>fr_outcome = (Fulfilled user', unc),
                                fr_store = d, fr_detached = []\<rparr>
                          else \<lparr>fr_outcome =
                                  (Rejected (JsError ''Error'' ''INVALID_PASSWORD''), unc),
                                fr_store = d, fr_detached = []\<rparr>)
                     | (Rejected e, unc) \<Rightarrow>
                         \<lparr>fr_outcome = (Rejected e, unc), fr_store = d, fr_detached = []\<rparr>
                     | (Pending, unc) \<Rightarrow>
                         \<lparr>fr_outcome = (Pending, unc), fr_store = d, fr_detached = []\<rparr>))
           | Signup \<Rightarrow>
               (case hash scrypt rnd (p_password parsedData) of
                  (Fulfilled hashedPassword, unc) \<Rightarrow>
                    (case user_create nid (p_email parsedData) (Some hashedPassword)
                            ''test'' None None d of
                       Inl e \<Rightarrow>
                         \<lparr>fr_outcome = (Rejected e, unc), fr_store = d, fr_detached = []\<rparr>
                     | Inr (user', d') \<Rightarrow>
                         \<lparr>fr_outcome = (Fulfilled user', unc),
                          fr_store = d', fr_detached = [user']\<rparr>)
                | (Rejected e, unc) \<Rightarrow>
                    \<lparr>fr_outcome = (Rejected e, unc), fr_store = d, fr_detached = []\<rparr>
                | (Pending, unc) \<Rightarrow>
                    \<lparr>fr_outcome = (Pending, unc), fr_store = d, fr_detached = []\<rparr>)))"

section \<open>The Google strategy\<close>

text \<open>The part of the provider's profile that the callback reads.\<close>

record profile =
  pr_displayName :: string
  pr_emails :: "string list"

text \<open>
  The verify callback of \<^verbatim>\<open>googleStrategy\<close>. Reading \<^verbatim>\<open>profile.emails[0].value\<close>
  of a profile without e-mails throws a TypeError.
\<close>

definition googleStrategy :: "nat \<Rightarrow> profile \<Rightarrow> db \<Rightarrow> user outcome \<times> db" where
  "googleStrategy nid profile' d =
     (case pr_emails profile' of
        [] \<Rightarrow>
          ((Rejected (JsError ''TypeError'' ''Cannot read properties of undefined''), None), d)
      | email # _ \<Rightarrow>
          (case user_upsert nid email (pr_displayName profile') d of
             Inl e \<Rightarrow> ((Rejected e, None), d)
           | Inr (u, d') \<Rightarrow> ((Fulfilled u, None), d')))"

text \<open>A key-derivation function for running the model: \<open>n\<close> bytes that depend on the
  lengths of the password and the salt.\<close>

definition sample_kdf :: kdf where
  "sample_kdf password salt n = Inr (replicate n (of_nat (length password + 3 * length salt)))"

text \<open>Sample data for running the model: the account of the spec's scenarios, whose
  stored hash is that of \<^verbatim>\<open>secret123\<close> under \<open>sample_kdf\<close> with the salt bytes
  \<open>[10, 255]\<close>, and payloads of the two kinds.\<close>

definition sample_user :: user where
  "sample_user =
     \<lparr>u_id = 1, u_email = ''a@x.com'',
      u_password = Some (''0aff.'' @ to_hex (replicate 32 21)),
      u_fullName = ''test'', u_emailVerified = False, u_isGoogleSignUp = False\<rparr>"

definition sample_db :: db where
  "sample_db = \<lparr>users = [sample_user], verificationCodes = []\<rparr>"


definition login_payload :: "string \<Rightarrow> string \<Rightarrow> json" where
  "login_payload email password =
     JObject [(''email'', JString email), (''password'', JString password),
              (''type'', JString ''login'')]"

definition signup_payload :: "string \<Rightarrow> string \<Rightarrow> json" where
  "signup_payload email password =
     JObject [(''email'', JString email), (''password'', JString password),
              (''fullName'', JString ''Alice''), (''tocAccepted'', JBool True),
              (''type'', JString ''signup'')]"

definition failing_mailer :: mailer where
  "failing_mailer to' code = SendRejected (JsError ''Error'' ''fetch failed'')"

definition working_mailer :: mailer where
  "working_mailer to' code = Sent"

definition sample_profile :: profile where
  "sample_profile = \<lparr>pr_displayName = ''Gina'', pr_emails = [''g@x.com'']\<rparr>"

definition provider_user :: user where
  "provider_user =
     \<lparr>u_id = 2, u_email = ''g@x.com'', u_password = None, u_fullName = ''Gina'',
      u_emailVerified = True, u_isGoogleSignUp = True\<rparr>"

definition provider_db :: db where
  "provider_db = \<lparr>users = [sample_user, provider_user], verificationCodes = []\<rparr>"

definition issued_db :: db where
  "issued_db =
     \<lparr>users = [sample_user],
      verificationCodes = [\<lparr>vc_code = ''11111111'', vc_userId = 1, vc_expires = 1201000\<rparr>]\<rparr>"

definition reissued_db :: db where
  "reissued_db =
     \<lparr>users = [sample_user],
      verificationCodes = [\<lparr>vc_code = ''22222222'', vc_userId = 1, vc_expires = 1205000\<rparr>]\<rparr>"



section \<open>Properties of the encoding\<close>

lemma upt16: "[0..<16] = [0, 1, 2, 3, 4, 5, 6, 7, 8, 9, 10, 11, 12, 13, 14, 15 :: nat]"
  by code_simp

lemma hex_vals: "map hex_val ''0123456789abcdef'' = map Some [0..<16]"
  unfolding upt16 by (simp add: hex_val_def)

lemma hex_val_hex_digit: "n < 16 \<Longrightarrow> hex_val (hex_digit n) = Some n"
proof -
  assume n: "n < 16"
  have "hex_val (hex_digit n) = map hex_val ''0123456789abcdef'' ! n"
    using n by (simp only: hex_digit_def nth_map [symmetric] list.size length_Cons)
  also have "\<dots> = Some n"
    using n by (simp only: hex_vals) simp
  finally show ?thesis .
qed

lemma hex_digit_not_dot: "n < 16 \<Longrightarrow> hex_digit n \<noteq> CHR ''.''"
proof -
  assume n: "n < 16"
  have "hex_digit n \<in> set ''0123456789abcdef''"
    unfolding hex_digit_def using n by (intro nth_mem) simp
  moreover have "CHR ''.'' \<notin> set ''0123456789abcdef''" by simp
  ultimately show ?thesis by metis
qed

lemma byte_high_nibble: "unat (b :: byte) div 16 < 16"
proof -
  have "unat b < 2 ^ LENGTH(8)" by (rule unsigned_less)
  then show ?thesis by simp
qed

lemma byte_nibbles: "of_nat (16 * (unat (b :: byte) div 16) + unat b mod 16) = b"
  by simp

lemma from_hex_to_hex: "from_hex (to_hex bs) = bs"
proof (induction bs)
  case Nil
  show ?case by (simp add: to_hex_def)
next
  case (Cons b bs)
  have "to_hex (b # bs) = hex_digit (unat b div 16) # hex_digit (unat b mod 16) # to_hex bs"
    by (simp add: to_hex_def)
  moreover have "hex_val (hex_digit (unat b div 16)) = Some (unat b div 16)"
    by (rule hex_val_hex_digit) (rule byte_high_nibble)
  moreover have "hex_val (hex_digit (unat b mod 16)) = Some (unat b mod 16)"
    by (rule hex_val_hex_digit) simp
  ultimately show ?case
    using Cons.IH byte_nibbles [of b] by simp
qed

lemma dot_notin_to_hex: "CHR ''.'' \<notin> set (to_hex bs)"
proof (induction bs)
  case Nil
  show ?case by (simp add: to_hex_def)
next
  case (Cons b bs)
  have "to_hex (b # bs) = hex_digit (unat b div 16) # hex_digit (unat b mod 16) # to_hex bs"
    by (simp add: to_hex_def)
  moreover have "hex_digit (unat b div 16) \<noteq> CHR ''.''"
    by (rule hex_digit_not_dot) (rule byte_high_nibble)
  moreover have "hex_digit (unat b mod 16) \<noteq> CHR ''.''"
    by (rule hex_digit_not_dot) simp
  ultimately show ?case
    using Cons.IH by auto
qed

lemma split_no_sep: "sep \<notin> set s \<Longrightarrow> split sep s = [s]"
  by (induction s) auto

lemma split_at_first: "sep \<notin> set a \<Longrightarrow> split sep (a @ sep # b) = a # split sep b"
  by (induction a) auto

lemma split_stored:
  "split CHR ''.'' (to_hex rnd @ CHR ''.'' # to_hex dk) = [to_hex rnd, to_hex dk]"
  using split_at_first [OF dot_notin_to_hex, of rnd "to_hex dk"]
    split_no_sep [OF dot_notin_to_hex, of dk]
  by simp

section \<open>Properties of the store and of the strategies\<close>

lemma compare_no_hash:
  "compare scrypt p [] =
     (Rejected (JsError ''TypeError'' ''The first argument must be of type string''), None)"
  by (simp add: compare_def)

lemma find_snoc:
  "find P (xs @ [x]) = (case find P xs of None \<Rightarrow> (if P x then Some x else None) | Some y \<Rightarrow> Some y)"
  by (induction xs) auto

lemma find_None_email:
  "find (\<lambda>u. u_email u = e) xs = None \<longleftrightarrow> e \<notin> set (map u_email xs)"
  by (induction xs) auto

lemma find_Some_email:
  "find (\<lambda>u. u_email u = e) xs = Some u \<Longrightarrow> u \<in> set xs \<and> u_email u = e"
  by (induction xs) (auto split: if_splits)

lemma filter_unique_email:
  "distinct (map u_email xs) \<Longrightarrow> find (\<lambda>u. u_email u = e) xs = Some u \<Longrightarrow>
     filter (\<lambda>a. u_email a = e) xs = [u]"
proof (induction xs)
  case Nil
  then show ?case by simp
next
  case (Cons x xs)
  show ?case
  proof (cases "u_email x = e")
    case True
    with Cons.prems have "x = u" by simp
    moreover from True Cons.prems have "e \<notin> set (map u_email xs)" by auto
    then have "filter (\<lambda>a. u_email a = e) xs = []" by (auto simp: filter_empty_conv)
    ultimately show ?thesis using True by simp
  next
    case False
    with Cons show ?thesis by simp
  qed
qed

lemma filter_absent_email:
  "e \<notin> set (map u_email xs) \<Longrightarrow> filter (\<lambda>a. u_email a = e) xs = []"
  by (auto simp: filter_empty_conv)





lemma user_create_free:
  "email \<notin> set (map u_email (users d)) \<Longrightarrow>
     user_create nid email pw fn None None d =
       Inr (\<lparr>u_id = nid, u_email = email, u_password = pw, u_fullName = fn,
              u_emailVerified = False, u_isGoogleSignUp = False\<rparr>,
            d\<lparr>users := users d @
              [\<lparr>u_id = nid, u_email = email, u_password = pw, u_fullName = fn,
                u_emailVerified = False, u_isGoogleSignUp = False\<rparr>]\<rparr>)"
  by (simp add: user_create_def Let_def)


lemma sendVerificationCode_fulfilled:
  assumes "sendVerificationCode code now send u d = ((Fulfilled (), unc), d')"
  shows "d' = d\<lparr>verificationCodes :=
             filter (\<lambda>r. vc_userId r \<noteq> u_id u) (verificationCodes d) @
             [\<lparr>vc_code = code, vc_userId = u_id u, vc_expires = now + 1000 * 60 * 20\<rparr>]\<rparr>"
  using assms
  by (cases "send (u_email u) code")
    (simp_all add: sendVerificationCode_def transaction_def verificationCode_deleteMany_def
      verificationCode_create_def Let_def)

lemma googleStrategy_existing:
  "pr_emails prof = e # es \<Longrightarrow> user_findFirst e d = Some u \<Longrightarrow>
     googleStrategy nid prof d = ((Fulfilled u, None), d)"
  by (simp add: googleStrategy_def user_upsert_def user_findFirst_def)

lemma googleStrategy_new:
  "pr_emails prof = e # es \<Longrightarrow> user_findFirst e d = None \<Longrightarrow>
     googleStrategy nid prof d =
       ((Fulfilled \<lparr>u_id = nid, u_email = e, u_password = None,
                    u_fullName = pr_displayName prof, u_emailVerified = True,
                    u_isGoogleSignUp = True\<rparr>, None),
        d\<lparr>users := users d @
             [\<lparr>u_id = nid, u_email = e, u_password = None,
               u_fullName = pr_displayName prof, u_emailVerified = True,
               u_isGoogleSignUp = True\<rparr>]\<rparr>)"
proof -
  assume e: "pr_emails prof = e # es" and "user_findFirst e d = None"
  then have f: "find (\<lambda>u. u_email u = e) (users d) = None"
    by (simp add: user_findFirst_def)
  then have free: "e \<notin> set (map u_email (users d))"
    by (simp add: find_None_email)
  show ?thesis
    using e f free by (simp add: googleStrategy_def user_upsert_def user_create_def Let_def)
qed

section \<open>The round trip of the hasher\<close>

text \<open>
  Claim C1. Whenever the key derivation succeeds, \<^verbatim>\<open>hash\<close> resolves to
  \<^verbatim>\<open>salt.derivedKeyHex\<close>, and \<^verbatim>\<open>compare\<close> of the same password with that stored
  hash resolves to true, with no uncaught exception. This holds for every password
  (the empty one included) and for every salt \<^verbatim>\<open>randomBytes\<close> may return.
\<close>

theorem compare_hash_roundtrip:
  assumes "scrypt p (to_hex rnd) keyLength = Inr dk"
  shows "\<exists>h. hash scrypt rnd p = (Fulfilled h, None) \<and> compare scrypt p h = (Fulfilled True, None)"
proof -
  have h: "hash scrypt rnd p = (Fulfilled (to_hex rnd @ ''.'' @ to_hex dk), None)"
    using assms by (simp add: hash_def)
  have "compare scrypt p (to_hex rnd @ ''.'' @ to_hex dk) = (Fulfilled True, None)"
    using assms by (simp add: compare_def split_stored from_hex_to_hex timingSafeEqual_def)
  with h show ?thesis by blast
qed

theorem compare_hash_roundtrip_witness:
  "sample_kdf ''secret123'' (to_hex [10, 255]) keyLength = Inr (replicate keyLength 21) \<and>
   (\<exists>h. hash sample_kdf [10, 255] ''secret123'' = (Fulfilled h, None) \<and>
        compare sample_kdf ''secret123'' h = (Fulfilled True, None))"
proof -
  have k: "sample_kdf ''secret123'' (to_hex [10, 255]) keyLength = Inr (replicate keyLength 21)"
    by (simp add: sample_kdf_def to_hex_def)
  show ?thesis
    using k compare_hash_roundtrip [of sample_kdf "''secret123''" "[10, 255]" "replicate keyLength 21"]
    by blast
qed

section \<open>Malformed stored hashes\<close>

text \<open>
  Claim C2 says that \<^verbatim>\<open>compare\<close> returns false on a malformed stored hash and
  never throws. The code has no handling of malformed hashes: without a separator
  the promise is rejected with the TypeError of \<^verbatim>\<open>Buffer.from(undefined, "hex")\<close>,
  and with a key part of another length than the derived key \<^verbatim>\<open>timingSafeEqual\<close>
  throws a RangeError out of the \<^verbatim>\<open>scrypt\<close> callback, so that the promise never
  settles.
\<close>

theorem compare_malformed_counterexample:
  "compare sample_kdf ''secret123'' ''deadbeef'' =
     (Rejected (JsError ''TypeError'' ''The first argument must be of type string''), None) \<and>
   compare sample_kdf ''secret123'' ''0aff.deadbeef'' =
     (Pending, Some (JsError ''RangeError'' ''Input buffers must have the same byte length''))"
  by (simp add: compare_def sample_kdf_def keyLength_def timingSafeEqual_def hex_val_def)

text \<open>
  Claim C2, amended. For every password: a stored hash without the separator makes
  \<^verbatim>\<open>compare\<close> reject with a TypeError; a stored hash with a separator, when the key
  derivation succeeds, makes it throw an uncaught RangeError and stay pending if the
  decoded key part has another length than the derived key, and resolve to the
  equality of the two keys (false on a mismatch) if the lengths agree.
\<close>

theorem compare_malformed:
  "(CHR ''.'' \<notin> set h \<longrightarrow>
      compare scrypt p h =
        (Rejected (JsError ''TypeError'' ''The first argument must be of type string''), None)) \<and>
   (\<forall>salt hashKey rest dk.
      split CHR ''.'' h = salt # hashKey # rest \<and> scrypt p salt keyLength = Inr dk \<longrightarrow>
      compare scrypt p h =
        (if length (from_hex hashKey) \<noteq> length dk
         then (Pending,
               Some (JsError ''RangeError'' ''Input buffers must have the same byte length''))
         else (Fulfilled (from_hex hashKey = dk), None)))"
  by (auto simp add: compare_def split_no_sep timingSafeEqual_def)

theorem compare_malformed_witness:
  "CHR ''.'' \<notin> set ''deadbeef'' \<and>
   compare sample_kdf ''secret123'' ''deadbeef'' =
     (Rejected (JsError ''TypeError'' ''The first argument must be of type string''), None) \<and>
   split CHR ''.'' ''0aff.deadbeef'' = [''0aff'', ''deadbeef''] \<and>
   sample_kdf ''secret123'' ''0aff'' keyLength = Inr (replicate 32 21) \<and>
   length (from_hex ''deadbeef'') \<noteq> length (replicate 32 (21 :: byte)) \<and>
   compare sample_kdf ''secret123'' ''0aff.deadbeef'' =
     (Pending, Some (JsError ''RangeError'' ''Input buffers must have the same byte length''))"
proof -
  have a: "CHR ''.'' \<notin> set ''deadbeef''" by simp
  have b: "split CHR ''.'' ''0aff.deadbeef'' = [''0aff'', ''deadbeef'']" by simp
  have c: "sample_kdf ''secret123'' ''0aff'' keyLength = Inr (replicate 32 21)"
    by (simp add: sample_kdf_def keyLength_def)
  have d: "length (from_hex ''deadbeef'') \<noteq> length (replicate 32 (21 :: byte))"
    by (simp add: hex_val_def)
  from compare_malformed [of "''deadbeef''" sample_kdf "''secret123''"] a
  have e: "compare sample_kdf ''secret123'' ''deadbeef'' =
     (Rejected (JsError ''TypeError'' ''The first argument must be of type string''), None)"
    by blast
  from compare_malformed [of "''0aff.deadbeef''" sample_kdf "''secret123''"] b c d
  have f: "compare sample_kdf ''secret123'' ''0aff.deadbeef'' =
     (Pending, Some (JsError ''RangeError'' ''Input buffers must have the same byte length''))"
    by (metis (no_types, lifting))
  from a b c d e f show ?thesis by blast
qed

section \<open>Errors of the login branch\<close>

text \<open>
  Claim C3 says that a login for an unknown e-mail and a login with a wrong password
  fail with the same error type and message. The code throws two different messages:
  the run for the unknown e-mail falls through to \<^verbatim>\<open>throw new Error("Login failed")\<close>
  at the end of the strategy, the run with the wrong password throws
  \<^verbatim>\<open>new Error("INVALID_PASSWORD")\<close>.
\<close>

theorem login_errors_counterexample:
  "fr_outcome (formStrategy sample_kdf [] 2 (login_payload ''b@x.com'' ''wrong'') sample_db) =
     (Rejected (JsError ''Error'' ''Login failed''), None) \<and>
   fr_outcome (formStrategy sample_kdf [] 2 (login_payload ''a@x.com'' ''wrong'') sample_db) =
     (Rejected (JsError ''Error'' ''INVALID_PASSWORD''), None)"
  by code_simp

text \<open>
  Claim C3, amended. For every validated login payload: when no account has the
  e-mail, the strategy rejects with an \<^verbatim>\<open>Error\<close> whose message is \<^verbatim>\<open>Login failed\<close>;
  when an account has it and \<^verbatim>\<open>compare\<close> resolves to false, the strategy rejects with
  an \<^verbatim>\<open>Error\<close> whose message is \<^verbatim>\<open>INVALID_PASSWORD\<close>. The two errors have the same
  type and different messages.
\<close>

theorem login_errors:
  assumes "safeParse ctx = Some p" and "p_type p = Login"
  shows "(user_findFirst (p_email p) d = None \<longrightarrow>
            fr_outcome (formStrategy scrypt rnd nid ctx d) =
              (Rejected (JsError ''Error'' ''Login failed''), None)) \<and>
         (\<forall>u unc. user_findFirst (p_email p) d = Some u \<and>
            compare scrypt (p_password p) (case u_password u of None \<Rightarrow> [] | Some h \<Rightarrow> h) =
              (Fulfilled False, unc) \<longrightarrow>
            fr_outcome (formStrategy scrypt rnd nid ctx d) =
              (Rejected (JsError ''Error'' ''INVALID_PASSWORD''), unc))"
  using assms by (simp add: formStrategy_def)

theorem login_errors_witness:
  "safeParse (login_payload ''b@x.com'' ''wrong'') =
     Some \<lparr>p_email = ''b@x.com'', p_password = ''wrong'', p_fullName = None,
           p_tocAccepted = None, p_type = Login\<rparr> \<and>
   user_findFirst ''b@x.com'' sample_db = None \<and>
   fr_outcome (formStrategy sample_kdf [] 2 (login_payload ''b@x.com'' ''wrong'') sample_db) =
     (Rejected (JsError ''Error'' ''Login failed''), None) \<and>
   safeParse (login_payload ''a@x.com'' ''wrong'') =
     Some \<lparr>p_email = ''a@x.com'', p_password = ''wrong'', p_fullName = None,
           p_tocAccepted = None, p_type = Login\<rparr> \<and>
   user_findFirst ''a@x.com'' sample_db = Some sample_user \<and>
   compare sample_kdf ''wrong'' (case u_password sample_user of None \<Rightarrow> [] | Some h \<Rightarrow> h) =
     (Fulfilled False, None) \<and>
   fr_outcome (formStrategy sample_kdf [] 2 (login_payload ''a@x.com'' ''wrong'') sample_db) =
     (Rejected (JsError ''Error'' ''INVALID_PASSWORD''), None)"
proof -
  let ?pb = "\<lparr>p_email = ''b@x.com'', p_password = ''wrong'', p_fullName = None,
           p_tocAccepted = None, p_type = Login\<rparr>"
  let ?pa = "\<lparr>p_email = ''a@x.com'', p_password = ''wrong'', p_fullName = None,
           p_tocAccepted = None, p_type = Login\<rparr>"
  have pb: "safeParse (login_payload ''b@x.com'' ''wrong'') = Some ?pb" by code_simp
  have pa: "safeParse (login_payload ''a@x.com'' ''wrong'') = Some ?pa" by code_simp
  have fb: "user_findFirst ''b@x.com'' sample_db = None" by code_simp
  have fa: "user_findFirst ''a@x.com'' sample_db = Some sample_user" by code_simp
  have c: "compare sample_kdf ''wrong''
             (case u_password sample_user of None \<Rightarrow> [] | Some h \<Rightarrow> h) = (Fulfilled False, None)"
    by code_simp
  have rb: "fr_outcome (formStrategy sample_kdf [] 2 (login_payload ''b@x.com'' ''wrong'') sample_db) =
     (Rejected (JsError ''Error'' ''Login failed''), None)"
    using login_errors [OF pb, of sample_db sample_kdf "[]" 2] fb by simp
  have ra: "fr_outcome (formStrategy sample_kdf [] 2 (login_payload ''a@x.com'' ''wrong'') sample_db) =
     (Rejected (JsError ''Error'' ''INVALID_PASSWORD''), None)"
    using login_errors [OF pa, of sample_db sample_kdf "[]" 2] fa c by simp
  from pb fb rb pa fa c ra show ?thesis by blast
qed

section \<open>Accounts made by the provider path\<close>

text \<open>
  Claim C4. An account created by the Google strategy (no account had the e-mail
  before) has no password hash, and every run of the login branch that fetches this
  account, in any later store and for any password, is rejected: the strategy passes
  the empty string to \<^verbatim>\<open>compare\<close>, which rejects with a TypeError. The account is
  never returned by the login branch.
\<close>

theorem provider_account_rejected_by_login:
  assumes "pr_emails prof = e # es"
      and "user_findFirst e d = None"
      and "googleStrategy nid prof d = ((Fulfilled u, unc), d')"
      and "safeParse ctx = Some p" and "p_type p = Login"
      and "user_findFirst (p_email p) d2 = Some u"
  shows "u_password u = None \<and> user_findFirst e d' = Some u \<and>
         fr_outcome (formStrategy scrypt rnd nid' ctx d2) =
           (Rejected (JsError ''TypeError'' ''The first argument must be of type string''), None)"
proof -
  from assms(2) have free: "e \<notin> set (map u_email (users d))"
    by (simp add: user_findFirst_def find_None_email)
  let ?u = "\<lparr>u_id = nid, u_email = e, u_password = None, u_fullName = pr_displayName prof,
             u_emailVerified = True, u_isGoogleSignUp = True\<rparr>"
  from assms(1,2,3) free have u: "u = ?u" and d': "d' = d\<lparr>users := users d @ [?u]\<rparr>"
    by (auto simp add: googleStrategy_def user_upsert_def user_findFirst_def user_create_def Let_def)
  from u have nopw: "u_password u = None" by simp
  from assms(2) have found: "user_findFirst e d' = Some u"
    by (simp add: d' u user_findFirst_def find_snoc)
  from assms(4,5,6) nopw
  have "fr_outcome (formStrategy scrypt rnd nid' ctx d2) =
           (Rejected (JsError ''TypeError'' ''The first argument must be of type string''), None)"
    by (simp add: formStrategy_def compare_no_hash)
  with nopw found show ?thesis by simp
qed

theorem provider_account_rejected_by_login_witness:
  "pr_emails sample_profile = [''g@x.com''] \<and>
   user_findFirst ''g@x.com'' sample_db = None \<and>
   googleStrategy 2 sample_profile sample_db = ((Fulfilled provider_user, None), provider_db) \<and>
   safeParse (login_payload ''g@x.com'' ''secret123'') =
     Some \<lparr>p_email = ''g@x.com'', p_password = ''secret123'', p_fullName = None,
           p_tocAccepted = None, p_type = Login\<rparr> \<and>
   user_findFirst ''g@x.com'' provider_db = Some provider_user \<and>
   u_password provider_user = None \<and>
   fr_outcome (formStrategy sample_kdf [] 3 (login_payload ''g@x.com'' ''secret123'') provider_db) =
     (Rejected (JsError ''TypeError'' ''The first argument must be of type string''), None)"
proof -
  let ?p = "\<lparr>p_email = ''g@x.com'', p_password = ''secret123'', p_fullName = None,
           p_tocAccepted = None, p_type = Login\<rparr>"
  have a: "pr_emails sample_profile = [''g@x.com'']" by code_simp
  have b: "user_findFirst ''g@x.com'' sample_db = None" by code_simp
  have c: "googleStrategy 2 sample_profile sample_db = ((Fulfilled provider_user, None), provider_db)"
    by code_simp
  have d: "safeParse (login_payload ''g@x.com'' ''secret123'') = Some ?p" by code_simp
  have t: "p_type ?p = Login" by simp
  have f: "user_findFirst (p_email ?p) provider_db = Some provider_user" by code_simp
  from provider_account_rejected_by_login [OF a b c d t f, of sample_kdf "[]" 3] a b c d f
  show ?thesis by simp
qed

section \<open>Signup with an e-mail that is taken\<close>

text \<open>
  Claim C5 says that such a signup fails with a \<^verbatim>\<open>ConflictError\<close> and not with a
  database error. The strategy has no error type of its own and does not catch what
  \<^verbatim>\<open>prisma.user.create\<close> throws: the store's unique-constraint error reaches the
  caller as it is.
\<close>

theorem signup_duplicate_counterexample:
  "fr_outcome (formStrategy sample_kdf [10, 255] 2 (signup_payload ''a@x.com'' ''secret123'') sample_db) =
     (Rejected (JsError ''PrismaClientKnownRequestError''
                 ''Unique constraint failed on the fields: (email)''), None)"
  by code_simp

text \<open>
  Claim C5, amended. For every validated signup payload whose e-mail already has an
  account, the strategy never resolves to an account, creates no row (the store is
  left as it was) and starts no verification code; when the key derivation succeeds,
  it rejects with the unique-constraint error of the store.
\<close>

theorem signup_duplicate_email:
  assumes "safeParse ctx = Some p" and "p_type p = Signup"
      and "p_email p \<in> set (map u_email (users d))"
  shows "fr_store (formStrategy scrypt rnd nid ctx d) = d \<and>
         fr_detached (formStrategy scrypt rnd nid ctx d) = [] \<and>
         (\<forall>acc unc. fr_outcome (formStrategy scrypt rnd nid ctx d) \<noteq> (Fulfilled acc, unc)) \<and>
         (\<forall>dk. scrypt (p_password p) (to_hex rnd) keyLength = Inr dk \<longrightarrow>
            fr_outcome (formStrategy scrypt rnd nid ctx d) = (Rejected unique_violation, None))"
proof -
  from assms(3) have taken: "\<And>pw fn ev gs. user_create nid (p_email p) pw fn ev gs d = Inl unique_violation"
    by (simp add: user_create_def)
  show ?thesis
  proof (cases "scrypt (p_password p) (to_hex rnd) keyLength")
    case (Inl err)
    with assms(1,2) show ?thesis by (simp add: formStrategy_def hash_def)
  next
    case (Inr dk)
    with assms(1,2) taken show ?thesis by (simp add: formStrategy_def hash_def)
  qed
qed

theorem signup_duplicate_email_witness:
  "safeParse (signup_payload ''a@x.com'' ''secret123'') =
     Some \<lparr>p_email = ''a@x.com'', p_password = ''secret123'', p_fullName = Some ''Alice'',
           p_tocAccepted = Some True, p_type = Signup\<rparr> \<and>
   ''a@x.com'' \<in> set (map u_email (users sample_db)) \<and>
   sample_kdf ''secret123'' (to_hex [10, 255]) keyLength = Inr (replicate keyLength 21) \<and>
   fr_store (formStrategy sample_kdf [10, 255] 2 (signup_payload ''a@x.com'' ''secret123'') sample_db) =
     sample_db \<and>
   fr_outcome (formStrategy sample_kdf [10, 255] 2 (signup_payload ''a@x.com'' ''secret123'') sample_db) =
     (Rejected unique_violation, None)"
proof -
  let ?p = "\<lparr>p_email = ''a@x.com'', p_password = ''secret123'', p_fullName = Some ''Alice'',
           p_tocAccepted = Some True, p_type = Signup\<rparr>"
  have a: "safeParse (signup_payload ''a@x.com'' ''secret123'') = Some ?p" by code_simp
  have t: "p_type ?p = Signup" by simp
  have m: "''a@x.com'' \<in> set (map u_email (users sample_db))" by code_simp
  then have m': "p_email ?p \<in> set (map u_email (users sample_db))" by simp
  have k: "sample_kdf ''secret123'' (to_hex [10, 255]) keyLength = Inr (replicate keyLength 21)"
    by (simp add: sample_kdf_def to_hex_def)
  from signup_duplicate_email [OF a t m', of sample_kdf "[10, 255]" 2] a m k
  show ?thesis by simp
qed

section \<open>The empty password\<close>




section \<open>Issuing a verification code\<close>

text \<open>
  Claim C7 says that a failed delivery does not roll back the new code. The mail is
  sent with \<^verbatim>\<open>await\<close> inside the callback of \<^verbatim>\<open>prisma.$transaction\<close>: when the send
  rejects, the callback throws and the transaction is rolled back, so the new row is
  not persisted.
\<close>

theorem delivery_failure_counterexample:
  "sendVerificationCode ''12345678'' 1000 failing_mailer sample_user sample_db =
     ((Rejected (JsError ''Error'' ''fetch failed''), None),
      \<lparr>users = [sample_user], verificationCodes = []\<rparr>)"
  by code_simp

text \<open>
  Claim C7, amended. When the mailer's send rejects, the issuance rejects with that
  error and the store is left exactly as it was before the issuance: the new code is
  not persisted and the earlier codes are not deleted. When the send resolves (also
  when it reports a delivery error in its result), the earlier codes of the account
  are deleted and the new row, expiring 20 minutes after \<^verbatim>\<open>Date.now()\<close>, is
  persisted.
\<close>

theorem delivery_failure_rolls_back:
  "(\<forall>e. send (u_email u) code = SendRejected e \<longrightarrow>
      sendVerificationCode code now send u d = ((Rejected e, None), d)) \<and>
   ((\<forall>e. send (u_email u) code \<noteq> SendRejected e) \<longrightarrow>
      sendVerificationCode code now send u d =
        ((Fulfilled (), None),
         d\<lparr>verificationCodes :=
             filter (\<lambda>r. vc_userId r \<noteq> u_id u) (verificationCodes d) @
             [\<lparr>vc_code = code, vc_userId = u_id u, vc_expires = now + 1200000\<rparr>]\<rparr>))"
  by (cases "send (u_email u) code")
    (simp_all add: sendVerificationCode_def transaction_def verificationCode_deleteMany_def
      verificationCode_create_def Let_def)

theorem delivery_failure_rolls_back_witness:
  "failing_mailer (u_email sample_user) ''12345678'' = SendRejected (JsError ''Error'' ''fetch failed'') \<and>
   sendVerificationCode ''12345678'' 1000 failing_mailer sample_user sample_db =
     ((Rejected (JsError ''Error'' ''fetch failed''), None), sample_db) \<and>
   (\<forall>e. working_mailer (u_email sample_user) ''12345678'' \<noteq> SendRejected e) \<and>
   sendVerificationCode ''12345678'' 1000 working_mailer sample_user sample_db =
     ((Fulfilled (), None),
      sample_db\<lparr>verificationCodes :=
             filter (\<lambda>r. vc_userId r \<noteq> u_id sample_user) (verificationCodes sample_db) @
             [\<lparr>vc_code = ''12345678'', vc_userId = u_id sample_user, vc_expires = 1000 + 1200000\<rparr>]\<rparr>)"
proof -
  have a: "failing_mailer (u_email sample_user) ''12345678'' = SendRejected (JsError ''Error'' ''fetch failed'')"
    by (simp add: failing_mailer_def)
  have b: "\<forall>e. working_mailer (u_email sample_user) ''12345678'' \<noteq> SendRejected e"
    by (simp add: working_mailer_def)
  from delivery_failure_rolls_back [of failing_mailer sample_user "''12345678''" 1000 sample_db] a
  have c: "sendVerificationCode ''12345678'' 1000 failing_mailer sample_user sample_db =
     ((Rejected (JsError ''Error'' ''fetch failed''), None), sample_db)"
    by blast
  from delivery_failure_rolls_back [of working_mailer sample_user "''12345678''" 1000 sample_db] b
  have d: "sendVerificationCode ''12345678'' 1000 working_mailer sample_user sample_db =
     ((Fulfilled (), None),
      sample_db\<lparr>verificationCodes :=
             filter (\<lambda>r. vc_userId r \<noteq> u_id sample_user) (verificationCodes sample_db) @
             [\<lparr>vc_code = ''12345678'', vc_userId = u_id sample_user, vc_expires = 1000 + 1200000\<rparr>]\<rparr>)"
    by blast
  from a b c d show ?thesis by blast
qed

text \<open>
  Claim C8. After a successful issuance the account has exactly one verification
  code, the one just issued; after a second successful issuance for the same account
  it has exactly the second one.
\<close>

theorem one_active_code:
  assumes "sendVerificationCode code1 now1 send1 u d = ((Fulfilled (), unc1), d1)"
      and "sendVerificationCode code2 now2 send2 u d1 = ((Fulfilled (), unc2), d2)"
  shows "filter (\<lambda>r. vc_userId r = u_id u) (verificationCodes d1) =
           [\<lparr>vc_code = code1, vc_userId = u_id u, vc_expires = now1 + 1000 * 60 * 20\<rparr>] \<and>
         filter (\<lambda>r. vc_userId r = u_id u) (verificationCodes d2) =
           [\<lparr>vc_code = code2, vc_userId = u_id u, vc_expires = now2 + 1000 * 60 * 20\<rparr>]"
proof -
  note s1 = sendVerificationCode_fulfilled [OF assms(1)]
  note s2 = sendVerificationCode_fulfilled [OF assms(2)]
  have "filter (\<lambda>r. vc_userId r = u_id u) (verificationCodes d1) =
           [\<lparr>vc_code = code1, vc_userId = u_id u, vc_expires = now1 + 1000 * 60 * 20\<rparr>]"
    unfolding s1 by (simp add: filter_empty_conv)
  moreover have "filter (\<lambda>r. vc_userId r = u_id u) (verificationCodes d2) =
           [\<lparr>vc_code = code2, vc_userId = u_id u, vc_expires = now2 + 1000 * 60 * 20\<rparr>]"
    unfolding s2 by (simp add: filter_empty_conv)
  ultimately show ?thesis by simp
qed

theorem one_active_code_witness:
  "sendVerificationCode ''11111111'' 1000 working_mailer sample_user sample_db =
     ((Fulfilled (), None), issued_db) \<and>
   sendVerificationCode ''22222222'' 5000 working_mailer sample_user issued_db =
     ((Fulfilled (), None), reissued_db) \<and>
   filter (\<lambda>r. vc_userId r = u_id sample_user) (verificationCodes issued_db) =
     [\<lparr>vc_code = ''11111111'', vc_userId = u_id sample_user, vc_expires = 1000 + 1000 * 60 * 20\<rparr>] \<and>
   filter (\<lambda>r. vc_userId r = u_id sample_user) (verificationCodes reissued_db) =
     [\<lparr>vc_code = ''22222222'', vc_userId = u_id sample_user, vc_expires = 5000 + 1000 * 60 * 20\<rparr>]"
proof -
  have a: "sendVerificationCode ''11111111'' 1000 working_mailer sample_user sample_db =
     ((Fulfilled (), None), issued_db)" by code_simp
  have b: "sendVerificationCode ''22222222'' 5000 working_mailer sample_user issued_db =
     ((Fulfilled (), None), reissued_db)" by code_simp
  from one_active_code [OF a b] a b show ?thesis by simp
qed

section \<open>The provider path is idempotent\<close>

text \<open>
  Claim C9. In a store whose e-mails are unique, two successive runs of the Google
  strategy with profiles that carry the same e-mail resolve to the same account (so
  to the same identifier); the second run leaves the store as the first one left it;
  the e-mails stay unique and exactly one account has that e-mail; and when an account
  had the e-mail before, it is the one returned and the store is not changed at all.
\<close>

theorem googleStrategy_idempotent:
  assumes "pr_emails prof1 = e # es1" and "pr_emails prof2 = e # es2"
      and "distinct (map u_email (users d))"
  shows "\<exists>u d1. googleStrategy nid1 prof1 d = ((Fulfilled u, None), d1) \<and>
           googleStrategy nid2 prof2 d1 = ((Fulfilled u, None), d1) \<and>
           distinct (map u_email (users d1)) \<and>
           filter (\<lambda>a. u_email a = e) (users d1) = [u] \<and>
           (\<forall>u0. user_findFirst e d = Some u0 \<longrightarrow> u = u0 \<and> d1 = d)"
proof (cases "user_findFirst e d")
  case (Some u0)
  have 1: "googleStrategy nid1 prof1 d = ((Fulfilled u0, None), d)"
    using assms(1) Some by (rule googleStrategy_existing)
  have 2: "googleStrategy nid2 prof2 d = ((Fulfilled u0, None), d)"
    using assms(2) Some by (rule googleStrategy_existing)
  have 3: "filter (\<lambda>a. u_email a = e) (users d) = [u0]"
    using assms(3) Some by (simp add: user_findFirst_def filter_unique_email)
  from 1 2 3 assms(3) Some show ?thesis by simp
next
  case None
  let ?u = "\<lparr>u_id = nid1, u_email = e, u_password = None,
                    u_fullName = pr_displayName prof1, u_emailVerified = True,
                    u_isGoogleSignUp = True\<rparr>"
  let ?d1 = "d\<lparr>users := users d @ [?u]\<rparr>"
  from None have free: "e \<notin> set (map u_email (users d))"
    by (simp add: user_findFirst_def find_None_email)
  have 1: "googleStrategy nid1 prof1 d = ((Fulfilled ?u, None), ?d1)"
    using assms(1) None by (rule googleStrategy_new)
  have f: "user_findFirst e ?d1 = Some ?u"
    using None by (simp add: user_findFirst_def find_snoc)
  have 2: "googleStrategy nid2 prof2 ?d1 = ((Fulfilled ?u, None), ?d1)"
    using assms(2) f by (rule googleStrategy_existing)
  have 3: "distinct (map u_email (users ?d1))"
    using assms(3) free by simp
  have 4: "filter (\<lambda>a. u_email a = e) (users ?d1) = [?u]"
    using free by (simp add: filter_absent_email)
  from 1 2 3 4 None show ?thesis by simp
qed

theorem googleStrategy_idempotent_witness:
  "pr_emails sample_profile = [''g@x.com''] \<and>
   pr_emails \<lparr>pr_displayName = ''Another name'', pr_emails = [''g@x.com'', ''h@x.com'']\<rparr> =
     [''g@x.com'', ''h@x.com''] \<and>
   distinct (map u_email (users sample_db)) \<and>
   (\<exists>u d1. googleStrategy 2 sample_profile sample_db = ((Fulfilled u, None), d1) \<and>
      googleStrategy 3 \<lparr>pr_displayName = ''Another name'', pr_emails = [''g@x.com'', ''h@x.com'']\<rparr> d1 =
        ((Fulfilled u, None), d1) \<and>
      distinct (map u_email (users d1)) \<and>
      filter (\<lambda>a. u_email a = ''g@x.com'') (users d1) = [u])"
proof -
  have a: "pr_emails sample_profile = [''g@x.com'']" by code_simp
  have b: "pr_emails \<lparr>pr_displayName = ''Another name'', pr_emails = [''g@x.com'', ''h@x.com'']\<rparr> =
     [''g@x.com'', ''h@x.com'']" by simp
  have c: "distinct (map u_email (users sample_db))" by code_simp
  from googleStrategy_idempotent [OF a b c, of 2 3] a b c show ?thesis by blast
qed

section \<open>The display name of a signup\<close>

text \<open>
  Claim C10. For every validated signup payload, whatever its \<^verbatim>\<open>fullName\<close>: an
  account returned by the strategy has the display name \<^verbatim>\<open>test\<close> and is the row
  appended to the store; and the strategy does return an account when the key
  derivation succeeds and the e-mail is free.
\<close>

theorem signup_display_name:
  assumes "safeParse ctx = Some p" and "p_type p = Signup"
  shows "(\<forall>u unc. fr_outcome (formStrategy scrypt rnd nid ctx d) = (Fulfilled u, unc) \<longrightarrow>
            u_fullName u = ''test'' \<and>
            fr_store (formStrategy scrypt rnd nid ctx d) = d\<lparr>users := users d @ [u]\<rparr>) \<and>
         (\<forall>dk. scrypt (p_password p) (to_hex rnd) keyLength = Inr dk \<and>
            p_email p \<notin> set (map u_email (users d)) \<longrightarrow>
            (\<exists>u. fr_outcome (formStrategy scrypt rnd nid ctx d) = (Fulfilled u, None)))"
proof (cases "scrypt (p_password p) (to_hex rnd) keyLength")
  case (Inl err)
  with assms show ?thesis by (simp add: formStrategy_def hash_def)
next
  case (Inr dk)
  show ?thesis
  proof (cases "p_email p \<in> set (map u_email (users d))")
    case True
    then have "\<And>pw. user_create nid (p_email p) pw ''test'' None None d = Inl unique_violation"
      by (simp add: user_create_def)
    with assms Inr True show ?thesis by (simp add: formStrategy_def hash_def)
  next
    case False
    note user_create_free [OF False, of nid "Some (to_hex rnd @ CHR ''.'' # to_hex dk)" "''test''"]
    with assms Inr False show ?thesis by (auto simp add: formStrategy_def hash_def)
  qed
qed

theorem signup_display_name_witness:
  "safeParse (signup_payload ''b@x.com'' ''secret123'') =
     Some \<lparr>p_email = ''b@x.com'', p_password = ''secret123'', p_fullName = Some ''Alice'',
           p_tocAccepted = Some True, p_type = Signup\<rparr> \<and>
   sample_kdf ''secret123'' (to_hex [10, 255]) keyLength = Inr (replicate keyLength 21) \<and>
   ''b@x.com'' \<notin> set (map u_email (users sample_db)) \<and>
   (\<exists>u. fr_outcome (formStrategy sample_kdf [10, 255] 2 (signup_payload ''b@x.com'' ''secret123'') sample_db) =
          (Fulfilled u, None) \<and>
        u_fullName u = ''test'' \<and>
        fr_store (formStrategy sample_kdf [10, 255] 2 (signup_payload ''b@x.com'' ''secret123'') sample_db) =
          sample_db\<lparr>users := users sample_db @ [u]\<rparr>)"
proof -
  let ?p = "\<lparr>p_email = ''b@x.com'', p_password = ''secret123'', p_fullName = Some ''Alice'',
           p_tocAccepted = Some True, p_type = Signup\<rparr>"
  have a: "safeParse (signup_payload ''b@x.com'' ''secret123'') = Some ?p" by code_simp
  have t: "p_type ?p = Signup" by simp
  have k: "sample_kdf ''secret123'' (to_hex [10, 255]) keyLength = Inr (replicate keyLength 21)"
    by (simp add: sample_kdf_def to_hex_def)
  have e: "''b@x.com'' \<notin> set (map u_email (users sample_db))" by code_simp
  note T = signup_display_name [OF a t, of sample_kdf "[10, 255]" 2 sample_db]
  from T k e obtain u where
    u: "fr_outcome (formStrategy sample_kdf [10, 255] 2 (signup_payload ''b@x.com'' ''secret123'') sample_db) =
          (Fulfilled u, None)"
    by auto
  with T have "u_fullName u = ''test'' \<and>
        fr_store (formStrategy sample_kdf [10, 255] 2 (signup_payload ''b@x.com'' ''secret123'') sample_db) =
          sample_db\<lparr>users := users sample_db @ [u]\<rparr>"
    by blast
  with a k e u show ?thesis by blast
qed

end
